theory Spec2Isabelle
  imports Main
begin

section \<open>Python objects, attributes and exceptions\<close>

text \<open>
  The module \<^verbatim>\<open>write.py\<close> defines two classes, \<^verbatim>\<open>Metadata\<close> and
  \<^verbatim>\<open>RecordBuilder\<close>, and the functions \<^verbatim>\<open>write\<close> and \<^verbatim>\<open>write_stream\<close>.
  A Python instance is a bag of attributes that exist only once they have been assigned:
  the class bodies hold annotations only (\<^verbatim>\<open>key: Hashkey\<close>, \<^verbatim>\<open>body: str\<close>, ...), and an
  annotation creates no attribute. Every attribute is therefore an \<open>option\<close>, \<open>None\<close>
  meaning "never assigned", and reading such an attribute raises \<^verbatim>\<open>AttributeError\<close>.

  A method takes the instance and returns the outcome (\<open>Inl\<close> the exception raised,
  \<open>Inr\<close> the value returned) together with the instance as the call leaves it: an
  exception raised half way keeps the assignments made before it.
\<close>

datatype error =
    AttributeError string
  | UnboundLocalError string
  | TypeError string
  | ValueError string
  | Exception string

type_synonym Hashkey = string

type_synonym bytes = "nat list"

text \<open>
  What \<^verbatim>\<open>__init__\<close> hands back. Python's \<^verbatim>\<open>type.__call__\<close> creates the bare instance,
  runs \<^verbatim>\<open>__init__\<close> on it and raises \<^verbatim>\<open>TypeError\<close> when \<^verbatim>\<open>__init__\<close> returns anything
  but \<^verbatim>\<open>None\<close>.
\<close>

datatype init_ret = Returns_None | Returns_object string

definition type_call :: "'o \<Rightarrow> ('o \<Rightarrow> (error + init_ret) \<times> 'o) \<Rightarrow> error + 'o" where
  "type_call bare init =
     (case init bare of
        (Inl e, obj) \<Rightarrow> Inl e
      | (Inr Returns_None, obj) \<Rightarrow> Inr obj
      | (Inr (Returns_object ty), obj) \<Rightarrow>
          Inl (TypeError (''__init__() should return None, not '' @ ty)))"

section \<open>Metadata\<close>

text \<open>
  \<^verbatim>\<open>created_at\<close> holds the reading of \<^verbatim>\<open>time.time()\<close>. The code only stores and
  prints it, so its type is left open (\<open>'t\<close>); the reading is the parameter \<open>now\<close>
  and its printed form the parameter \<open>fmt\<close>.
\<close>

record 't Metadata =
  key :: "Hashkey option"
  feature :: "Hashkey option"
  author :: "Hashkey option"
  created_at :: "'t option"
  size_attr :: "int option"

definition Metadata_bare :: "'t Metadata" where
  "Metadata_bare =
     \<lparr>key = None, feature = None, author = None, created_at = None, size_attr = None\<rparr>"

definition Metadata_init :: "'t \<Rightarrow> 't Metadata \<Rightarrow> (error + init_ret) \<times> 't Metadata" where
  "Metadata_init now self =
     (let self1 = self\<lparr>created_at := Some now\<rparr>
      in (Inr (Returns_object ''Metadata''), self1))"

definition Metadata_new :: "'t \<Rightarrow> error + 't Metadata" where
  "Metadata_new now = type_call Metadata_bare (Metadata_init now)"

fun show_nat :: "nat \<Rightarrow> string" where
  "show_nat n =
     (if n < 10 then [char_of (48 + n)]
      else show_nat (n div 10) @ [char_of (48 + n mod 10)])"

declare show_nat.simps [simp del]

definition show_int :: "int \<Rightarrow> string" where
  "show_int i = (if i < 0 then CHR ''-'' # show_nat (nat (- i)) else show_nat (nat i))"

definition get_info :: "('t \<Rightarrow> string) \<Rightarrow> 't Metadata \<Rightarrow> error + string" where
  "get_info fmt self =
     (case feature self of
        None \<Rightarrow> Inl (AttributeError ''feature'')
      | Some ft \<Rightarrow>
     (case author self of
        None \<Rightarrow> Inl (AttributeError ''author'')
      | Some au \<Rightarrow>
     (case created_at self of
        None \<Rightarrow> Inl (AttributeError ''created_at'')
      | Some t \<Rightarrow>
     (case size_attr self of
        None \<Rightarrow> Inl (AttributeError ''size'')
      | Some n \<Rightarrow>
          Inr (''feature:'' @ ft @ '';author:'' @ au @ '';create_at:'' @ fmt t
               @ '';size:'' @ show_int n @ '';'')))))"

definition Metadata_str :: "('t \<Rightarrow> string) \<Rightarrow> 't Metadata \<Rightarrow> error + string" where
  "Metadata_str fmt self =
     (case key self of
        None \<Rightarrow> Inl (AttributeError ''key'')
      | Some k \<Rightarrow>
     (case get_info fmt self of
        Inl e \<Rightarrow> Inl e
      | Inr info \<Rightarrow> Inr (''key:'' @ k @ '';'' @ info)))"

section \<open>RecordBuilder\<close>

text \<open>
  \<^verbatim>\<open>key_builder\<close> is a \<^verbatim>\<open>hashlib.md5\<close> object: the model keeps the bytes fed to it so
  far, \<^verbatim>\<open>md5()\<close> being the empty sequence and \<^verbatim>\<open>update\<close> appending. The digest function
  itself belongs to the library and is the parameter \<open>hexdigest\<close>.
  \<^verbatim>\<open>complete_flag\<close> is the private attribute \<^verbatim>\<open>__complete\<close>.
\<close>

record 't RecordBuilder =
  meta :: "'t Metadata option"
  body :: "string option"
  key_builder :: "bytes option"
  complete_flag :: "bool option"

definition RecordBuilder_bare :: "'t RecordBuilder" where
  "RecordBuilder_bare =
     \<lparr>meta = None, body = None, key_builder = None, complete_flag = None\<rparr>"

text \<open>
  The body of \<^verbatim>\<open>__init__\<close>, with the outcome of the call \<^verbatim>\<open>Metadata()\<close> on its second
  line as the argument \<open>new_meta\<close>.
\<close>

definition RecordBuilder_init_with ::
    "(error + 't Metadata) \<Rightarrow> 't RecordBuilder \<Rightarrow> Hashkey \<Rightarrow> (error + init_ret) \<times> 't RecordBuilder" where
  "RecordBuilder_init_with new_meta self feat =
     (case meta self of
        None \<Rightarrow> (Inl (AttributeError ''meta''), self)
      | Some m \<Rightarrow>
          (let self1 = self\<lparr>meta := Some (m\<lparr>feature := Some feat\<rparr>)\<rparr>
           in case new_meta of
                Inl e \<Rightarrow> (Inl e, self1)
              | Inr m' \<Rightarrow>
                  (let self2 = self1\<lparr>meta := Some m'\<rparr>;
                       self3 = self2\<lparr>key_builder := Some []\<rparr>;
                       self4 = self3\<lparr>complete_flag := Some False\<rparr>
                   in (Inr (Returns_object ''method''), self4))))"

definition RecordBuilder_init ::
    "'t \<Rightarrow> 't RecordBuilder \<Rightarrow> Hashkey \<Rightarrow> (error + init_ret) \<times> 't RecordBuilder" where
  "RecordBuilder_init now self feat = RecordBuilder_init_with (Metadata_new now) self feat"

definition RecordBuilder_new :: "'t \<Rightarrow> Hashkey \<Rightarrow> error + 't RecordBuilder" where
  "RecordBuilder_new now feat =
     type_call RecordBuilder_bare (\<lambda>self. RecordBuilder_init now self feat)"

definition add_author :: "'t RecordBuilder \<Rightarrow> Hashkey \<Rightarrow> (error + unit) \<times> 't RecordBuilder" where
  "add_author self auth =
     (case complete_flag self of
        None \<Rightarrow> (Inl (AttributeError ''_RecordBuilder__complete''), self)
      | Some True \<Rightarrow> (Inl (Exception ''already complete''), self)
      | Some False \<Rightarrow>
          (case meta self of
             None \<Rightarrow> (Inl (AttributeError ''meta''), self)
           | Some m \<Rightarrow> (Inr (), self\<lparr>meta := Some (m\<lparr>author := Some auth\<rparr>)\<rparr>)))"

text \<open>
  \<^verbatim>\<open>str.encode('utf-8')\<close> for the code points below 256 that a \<open>char\<close> can hold.
\<close>

definition utf8 :: "string \<Rightarrow> bytes" where
  "utf8 s =
     concat (map (\<lambda>c. let n = (of_char c :: nat)
                       in if n < 128 then [n] else [192 + n div 64, 128 + n mod 64]) s)"

text \<open>
  \<^verbatim>\<open>append_body\<close>. The name \<^verbatim>\<open>encode\<close> is assigned in the function, so it is a local
  variable, and nothing binds it before \<^verbatim>\<open>encode += ...\<close> reads it: \<open>encode\<close> below is
  the local's slot at that line.
\<close>

definition append_body :: "'t RecordBuilder \<Rightarrow> string \<Rightarrow> (error + unit) \<times> 't RecordBuilder" where
  "append_body self content =
     (case complete_flag self of
        None \<Rightarrow> (Inl (AttributeError ''_RecordBuilder__complete''), self)
      | Some True \<Rightarrow> (Inl (Exception ''already complete''), self)
      | Some False \<Rightarrow>
          (case body self of
             None \<Rightarrow> (Inl (AttributeError ''body''), self)
           | Some b \<Rightarrow>
               (let self1 = self\<lparr>body := Some (b @ content)\<rparr>;
                    encode = (None :: bytes option)
                in case encode of
                     None \<Rightarrow> (Inl (UnboundLocalError ''encode''), self1)
                   | Some e \<Rightarrow>
                       (let encode1 = e @ utf8 content
                        in case key_builder self1 of
                             None \<Rightarrow> (Inl (AttributeError ''key_builder''), self1)
                           | Some kb \<Rightarrow>
                               (Inr (), self1\<lparr>key_builder := Some (kb @ encode1)\<rparr>)))))"

definition complete :: "(bytes \<Rightarrow> Hashkey) \<Rightarrow> 't RecordBuilder \<Rightarrow> (error + unit) \<times> 't RecordBuilder" where
  "complete hexdigest self =
     (case complete_flag self of
        None \<Rightarrow> (Inl (AttributeError ''_RecordBuilder__complete''), self)
      | Some True \<Rightarrow> (Inl (Exception ''already complete''), self)
      | Some False \<Rightarrow>
          (case key_builder self of
             None \<Rightarrow> (Inl (AttributeError ''key_builder''), self)
           | Some kb \<Rightarrow>
               (case meta self of
                  None \<Rightarrow> (Inl (AttributeError ''meta''), self)
                | Some m \<Rightarrow>
                    (let self1 = self\<lparr>meta := Some (m\<lparr>key := Some (hexdigest kb)\<rparr>)\<rparr>;
                         self2 = self1\<lparr>complete_flag := Some True\<rparr>
                     in (Inr (), self2)))))"

definition result :: "('t \<Rightarrow> string) \<Rightarrow> 't RecordBuilder \<Rightarrow> error + string" where
  "result fmt self =
     (case complete_flag self of
        None \<Rightarrow> Inl (AttributeError ''_RecordBuilder__complete'')
      | Some False \<Rightarrow> Inl (Exception ''not complete'')
      | Some True \<Rightarrow>
          (case meta self of
             None \<Rightarrow> Inl (AttributeError ''meta'')
           | Some m \<Rightarrow>
               (case Metadata_str fmt m of
                  Inl e \<Rightarrow> Inl e
                | Inr head \<Rightarrow>
                    (case body self of
                       None \<Rightarrow> Inl (AttributeError ''body'')
                     | Some b \<Rightarrow> Inr (head @ ''body:'' @ b @ [CHR 0x0A])))))"

section \<open>The file and the two writers\<close>

text \<open>
  The sink is the text of the file at \<^verbatim>\<open>path\<close>; \<^verbatim>\<open>open(path, 'a')\<close> yields a handle on
  it, and leaving the \<^verbatim>\<open>with\<close> block, by \<^verbatim>\<open>return\<close> or by an exception, closes the
  handle. Writing through a closed handle raises \<^verbatim>\<open>ValueError\<close>.
\<close>

record textfile =
  contents :: string
  closed :: bool

definition open_append :: "string \<Rightarrow> textfile" where
  "open_append sink = \<lparr>contents = sink, closed = False\<rparr>"

definition close :: "textfile \<Rightarrow> textfile" where
  "close f = f\<lparr>closed := True\<rparr>"

definition file_write :: "textfile \<Rightarrow> string \<Rightarrow> (error + unit) \<times> textfile" where
  "file_write f s =
     (if closed f then (Inl (ValueError ''I/O operation on closed file''), f)
      else (Inr (), f\<lparr>contents := contents f @ s\<rparr>))"

text \<open>
  \<^verbatim>\<open>RecordBuilder(feature)(author)\<close> calls the instance; the class defines no
  \<^verbatim>\<open>__call__\<close>.
\<close>

definition call_instance :: "'t RecordBuilder \<Rightarrow> Hashkey \<Rightarrow> error + 't RecordBuilder" where
  "call_instance r auth = Inl (TypeError ''RecordBuilder object is not callable'')"

definition meta_key :: "'t RecordBuilder \<Rightarrow> error + Hashkey" where
  "meta_key r =
     (case meta r of
        None \<Rightarrow> Inl (AttributeError ''meta'')
      | Some m \<Rightarrow> (case key m of None \<Rightarrow> Inl (AttributeError ''key'') | Some k \<Rightarrow> Inr k))"

text \<open>The function \<^verbatim>\<open>write\<close> of the module.\<close>

definition write_once ::
    "(bytes \<Rightarrow> Hashkey) \<Rightarrow> ('t \<Rightarrow> string) \<Rightarrow> 't \<Rightarrow> string \<Rightarrow> Hashkey \<Rightarrow> Hashkey \<Rightarrow> string
       \<Rightarrow> (error + Hashkey) \<times> textfile" where
  "write_once hexdigest fmt now sink feat auth content =
     (let f = open_append sink;
          (res, f') =
            (case RecordBuilder_new now feat of
               Inl e \<Rightarrow> (Inl e, f)
             | Inr r0 \<Rightarrow>
            (case call_instance r0 auth of
               Inl e \<Rightarrow> (Inl e, f)
             | Inr r1 \<Rightarrow>
            (case append_body r1 content of
               (Inl e, r2) \<Rightarrow> (Inl e, f)
             | (Inr u, r2) \<Rightarrow>
            (case complete hexdigest r2 of
               (Inl e, record) \<Rightarrow> (Inl e, f)
             | (Inr u, record) \<Rightarrow>
            (case result fmt record of
               Inl e \<Rightarrow> (Inl e, f)
             | Inr line \<Rightarrow>
            (case file_write f line of
               (Inl e, f1) \<Rightarrow> (Inl e, f1)
             | (Inr u, f1) \<Rightarrow>
            (case meta_key record of
               Inl e \<Rightarrow> (Inl e, f1)
             | Inr k \<Rightarrow> (Inr k, f1))))))))
      in (res, close f'))"

text \<open>
  \<^verbatim>\<open>write_stream\<close> returns the closures \<^verbatim>\<open>append\<close> and \<^verbatim>\<open>complete\<close>, which share the
  cells \<^verbatim>\<open>record\<close> and \<^verbatim>\<open>f\<close>: a session is that pair, and each closure is a function on
  it. The \<^verbatim>\<open>return\<close> sits inside the \<^verbatim>\<open>with\<close> block, so the handle in the session
  is closed before the caller receives the closures.
\<close>

type_synonym 't session = "'t RecordBuilder \<times> textfile"

definition write_stream :: "'t \<Rightarrow> string \<Rightarrow> Hashkey \<Rightarrow> Hashkey \<Rightarrow> error \<times> textfile + 't session" where
  "write_stream now sink feat auth =
     (let f = open_append sink
      in case RecordBuilder_new now feat of
           Inl e \<Rightarrow> Inl (e, close f)
         | Inr r0 \<Rightarrow>
             (case call_instance r0 auth of
                Inl e \<Rightarrow> Inl (e, close f)
              | Inr record \<Rightarrow> Inr (record, close f)))"

definition stream_append :: "'t session \<Rightarrow> string \<Rightarrow> (error + unit) \<times> 't session" where
  "stream_append s content =
     (case s of (record, f) \<Rightarrow>
        (case append_body record content of (res, record') \<Rightarrow> (res, (record', f))))"

definition stream_complete ::
    "(bytes \<Rightarrow> Hashkey) \<Rightarrow> ('t \<Rightarrow> string) \<Rightarrow> 't session \<Rightarrow> (error + Hashkey) \<times> 't session" where
  "stream_complete hexdigest fmt s =
     (case s of (record, f) \<Rightarrow>
        (case complete hexdigest record of
           (Inl e, record') \<Rightarrow> (Inl e, (record', f))
         | (Inr u, record') \<Rightarrow>
             (case result fmt record' of
                Inl e \<Rightarrow> (Inl e, (record', f))
              | Inr line \<Rightarrow>
                  (case file_write f line of
                     (Inl e, f1) \<Rightarrow> (Inl e, (record', f1))
                   | (Inr u, f1) \<Rightarrow>
                       (case meta_key record' of
                          Inl e \<Rightarrow> (Inl e, (record', f1))
                        | Inr k \<Rightarrow> (Inr k, (record', f1)))))))"

section \<open>Instances used in the concrete evaluations\<close>

text \<open>
  An instance as the class annotations describe an open builder: every attribute of the
  builder assigned, an empty body, a fresh \<^verbatim>\<open>md5\<close> object, the completion flag
  \<^verbatim>\<open>False\<close>, and a metadata object that has no attribute yet.
\<close>

definition open_builder :: "nat RecordBuilder" where
  "open_builder =
     \<lparr>meta = Some Metadata_bare, body = Some [], key_builder = Some [],
      complete_flag = Some False\<rparr>"

text \<open>
  An open builder holding the body \<^verbatim>\<open>hello\<close>, whose metadata carries the tags and the
  timestamp but no \<^verbatim>\<open>size\<close>, the attribute that no statement of the module assigns.
\<close>

definition hello_builder :: "nat RecordBuilder" where
  "hello_builder =
     \<lparr>meta = Some \<lparr>key = None, feature = Some ''featA'', author = Some ''authX'',
                   created_at = Some 1683072000, size_attr = None\<rparr>,
      body = Some ''hello'', key_builder = Some [], complete_flag = Some False\<rparr>"

section \<open>What each method comes to\<close>

lemma Metadata_new_raises:
  "Metadata_new now = Inl (TypeError ''__init__() should return None, not Metadata'')"
  by (simp add: Metadata_new_def type_call_def Metadata_init_def)

lemma RecordBuilder_new_raises:
  "RecordBuilder_new now feat = Inl (AttributeError ''meta'')"
  by (simp add: RecordBuilder_new_def type_call_def RecordBuilder_init_def
      RecordBuilder_init_with_def RecordBuilder_bare_def)

lemma RecordBuilder_init_raises:
  "isl (fst (RecordBuilder_init now self feat))"
  by (simp add: RecordBuilder_init_def RecordBuilder_init_with_def Metadata_new_raises
      split: option.split)

lemma append_body_eval:
  "append_body self content =
     (case complete_flag self of
        None \<Rightarrow> (Inl (AttributeError ''_RecordBuilder__complete''), self)
      | Some True \<Rightarrow> (Inl (Exception ''already complete''), self)
      | Some False \<Rightarrow>
          (case body self of
             None \<Rightarrow> (Inl (AttributeError ''body''), self)
           | Some b \<Rightarrow>
               (Inl (UnboundLocalError ''encode''), self\<lparr>body := Some (b @ content)\<rparr>)))"
  by (simp add: append_body_def split: option.split bool.split)

lemma complete_eval:
  "complete H self =
     (case complete_flag self of
        None \<Rightarrow> (Inl (AttributeError ''_RecordBuilder__complete''), self)
      | Some True \<Rightarrow> (Inl (Exception ''already complete''), self)
      | Some False \<Rightarrow>
          (case key_builder self of
             None \<Rightarrow> (Inl (AttributeError ''key_builder''), self)
           | Some kb \<Rightarrow>
               (case meta self of
                  None \<Rightarrow> (Inl (AttributeError ''meta''), self)
                | Some m \<Rightarrow>
                    (Inr (), self\<lparr>meta := Some (m\<lparr>key := Some (H kb)\<rparr>),
                                  complete_flag := Some True\<rparr>))))"
  by (simp add: complete_def split: option.split bool.split)

lemma Metadata_str_no_Exception:
  "Metadata_str fmt m \<noteq> Inl (Exception msg)"
  by (simp add: Metadata_str_def get_info_def split: option.split)

text \<open>
  The line \<^verbatim>\<open>result\<close> builds when every attribute it reads has been assigned: the
  fields are printed as stored, \<^verbatim>\<open>size\<close> included.
\<close>

lemma result_format:
  "result fmt \<lparr>meta = Some \<lparr>key = Some k, feature = Some ft, author = Some au,
                              created_at = Some t, size_attr = Some n\<rparr>,
               body = Some b, key_builder = kb, complete_flag = Some True\<rparr>
   = Inr (''key:'' @ k @ '';feature:'' @ ft @ '';author:'' @ au @ '';create_at:'' @ fmt t
          @ '';size:'' @ show_int n @ '';body:'' @ b @ [CHR 0x0A])"
  by (simp add: result_def Metadata_str_def get_info_def)

section \<open>The claims\<close>

text \<open>
  Claim C9. Constructing \<^verbatim>\<open>RecordBuilder(feature)\<close> always raises: the first line of
  \<^verbatim>\<open>__init__\<close> reads \<^verbatim>\<open>self.meta\<close> on the bare instance, which is an
  \<^verbatim>\<open>AttributeError\<close>. From no starting instance does \<^verbatim>\<open>__init__\<close> run to its end.
  And were \<^verbatim>\<open>self.meta\<close> present and the call \<^verbatim>\<open>Metadata()\<close> to yield the object its
  \<^verbatim>\<open>__init__\<close> body builds, the second line would replace the metadata by that object,
  which has no \<^verbatim>\<open>feature\<close>: the caller's tag is recorded by no builder.
\<close>

theorem RecordBuilder_constructor_always_raises:
  "RecordBuilder_new now feat = Inl (AttributeError ''meta'')
   \<and> isl (fst (RecordBuilder_init now self feat))
   \<and> meta (snd (RecordBuilder_init_with (Inr (snd (Metadata_init now Metadata_bare)))
                   (self\<lparr>meta := Some m\<rparr>) feat))
       = Some (Metadata_bare\<lparr>created_at := Some now\<rparr>)
   \<and> feature (Metadata_bare\<lparr>created_at := Some now\<rparr>) = None"
  by (simp add: RecordBuilder_new_raises RecordBuilder_init_raises
      RecordBuilder_init_with_def Metadata_init_def Metadata_bare_def)

text \<open>
  Claim C10. No call of \<^verbatim>\<open>append_body\<close> returns, whatever the instance and the content,
  the empty content included. A call that passes the completeness check raises
  \<^verbatim>\<open>AttributeError\<close> on \<^verbatim>\<open>self.body\<close> when that attribute was never assigned and
  \<^verbatim>\<open>UnboundLocalError\<close> on the local \<^verbatim>\<open>encode\<close> otherwise; either way the digest
  object and the metadata are as before the call. No operation of either class assigns
  \<^verbatim>\<open>size\<close>.
\<close>

theorem append_body_never_succeeds:
  "isl (fst (append_body self content))
   \<and> fst (append_body (self\<lparr>complete_flag := Some False\<rparr>) content)
       = Inl (if body self = None then AttributeError ''body'' else UnboundLocalError ''encode'')
   \<and> key_builder (snd (append_body self content)) = key_builder self
   \<and> meta (snd (append_body self content)) = meta self
   \<and> map_option size_attr (meta (snd (add_author self auth))) = map_option size_attr (meta self)
   \<and> map_option size_attr (meta (snd (complete H self))) = map_option size_attr (meta self)
   \<and> map_option size_attr (meta (snd (RecordBuilder_init now self feat)))
       = map_option size_attr (meta self)
   \<and> size_attr (snd (Metadata_init now m)) = size_attr m"
  by (simp add: append_body_eval complete_eval add_author_def RecordBuilder_init_def
      RecordBuilder_init_with_def Metadata_new_raises Metadata_init_def
      split: option.split bool.split)

text \<open>
  Claim C2. On every builder on which \<^verbatim>\<open>complete\<close> (the spec's seal) has succeeded, a
  second \<^verbatim>\<open>complete\<close> raises \<^verbatim>\<open>Exception('already complete')\<close> and leaves the whole
  instance, so \<^verbatim>\<open>size\<close> and \<^verbatim>\<open>key\<close> too, as the first call left it.
\<close>

theorem complete_twice_fails:
  "fst (complete H self) = Inr () \<Longrightarrow>
   complete H (snd (complete H self))
     = (Inl (Exception ''already complete''), snd (complete H self))"
  by (auto simp: complete_eval split: option.splits bool.splits)

theorem complete_twice_fails_witness:
  "fst (complete (\<lambda>bs. replicate 32 CHR ''0'') open_builder) = Inr ()
   \<and> complete (\<lambda>bs. replicate 32 CHR ''0'')
        (snd (complete (\<lambda>bs. replicate 32 CHR ''0'') open_builder))
      = (Inl (Exception ''already complete''),
         snd (complete (\<lambda>bs. replicate 32 CHR ''0'') open_builder))"
proof -
  have h: "fst (complete (\<lambda>bs. replicate 32 CHR ''0'') open_builder) = Inr ()"
    by (simp add: complete_eval open_builder_def)
  show ?thesis
    using h complete_twice_fails [OF h] by simp
qed

text \<open>
  Claim C3, as stated, fails: on an open builder whose metadata has no author,
  \<^verbatim>\<open>append_body\<close> does not raise the state error but \<^verbatim>\<open>UnboundLocalError\<close>, after it
  has already extended the body.
\<close>

theorem append_before_author_counterexample:
  "author (Metadata_bare :: nat Metadata) = None
   \<and> fst (append_body open_builder ''x'') = Inl (UnboundLocalError ''encode'')
   \<and> fst (append_body open_builder ''x'') \<noteq> Inl (Exception ''already complete'')
   \<and> body (snd (append_body open_builder ''x'')) = Some ''x''"
  by (simp add: append_body_eval open_builder_def Metadata_bare_def)

text \<open>
  Claim C3, amended. \<^verbatim>\<open>append_body\<close> has no author check: the one lifecycle error it
  raises is \<^verbatim>\<open>Exception('already complete')\<close>, raised exactly when the builder is sealed,
  and its outcome does not depend on the metadata, so not on an author being assigned.
  \<^verbatim>\<open>result\<close> (the spec's render) raises \<^verbatim>\<open>Exception('not complete')\<close> exactly when the
  completion flag is \<^verbatim>\<open>False\<close>.
\<close>

theorem lifecycle_guards:
  "(fst (append_body self content) = Inl (Exception ''already complete''))
     = (complete_flag self = Some True)
   \<and> fst (append_body (self\<lparr>meta := m\<rparr>) content) = fst (append_body self content)
   \<and> (result fmt self = Inl (Exception ''not complete'')) = (complete_flag self = Some False)"
  by (auto simp: append_body_eval result_def Metadata_str_no_Exception
      split: option.splits bool.splits sum.splits)

text \<open>
  Claim C1, evaluated. The key that \<^verbatim>\<open>complete\<close> assigns is the same whether or not
  \<^verbatim>\<open>append_body\<close> was called before it. On the open builder, \<^verbatim>\<open>append_body('abc')\<close>
  raises after extending the body; sealing then assigns the digest of the empty byte
  sequence while the body is \<^verbatim>\<open>abc\<close>.
\<close>

theorem key_ignores_appended_bytes:
  "map_option key (meta (snd (complete H (snd (append_body self content)))))
     = map_option key (meta (snd (complete H self)))
   \<and> append_body open_builder ''abc''
     = (Inl (UnboundLocalError ''encode''), open_builder\<lparr>body := Some ''abc''\<rparr>)
   \<and> complete H (open_builder\<lparr>body := Some ''abc''\<rparr>)
     = (Inr (), \<lparr>meta = Some (Metadata_bare\<lparr>key := Some (H [])\<rparr>), body = Some ''abc'',
                 key_builder = Some [], complete_flag = Some True\<rparr>)"
  by (auto simp: append_body_eval complete_eval open_builder_def
      split: option.splits bool.splits)

text \<open>
  Claim C4, evaluated. On a builder that passes the completeness check, appending
  \<^verbatim>\<open>ab\<close> raises, and so does appending \<^verbatim>\<open>abc\<close>: with a body attribute the call raises
  \<^verbatim>\<open>UnboundLocalError\<close> and leaves the content in the body, without one it raises
  \<^verbatim>\<open>AttributeError\<close>. The second append of the chain \<^verbatim>\<open>ab\<close>, \<^verbatim>\<open>c\<close> is never reached
  and no key comes out of either sequence.
\<close>

theorem chunked_append_raises:
  "append_body (self\<lparr>complete_flag := Some False, body := Some b\<rparr>) ''ab''
     = (Inl (UnboundLocalError ''encode''),
        self\<lparr>complete_flag := Some False, body := Some (b @ ''ab'')\<rparr>)
   \<and> append_body (self\<lparr>complete_flag := Some False, body := Some b\<rparr>) ''abc''
     = (Inl (UnboundLocalError ''encode''),
        self\<lparr>complete_flag := Some False, body := Some (b @ ''abc'')\<rparr>)
   \<and> append_body (self\<lparr>complete_flag := Some False, body := None\<rparr>) ''ab''
     = (Inl (AttributeError ''body''), self\<lparr>complete_flag := Some False, body := None\<rparr>)
   \<and> append_body (self\<lparr>complete_flag := Some False, body := None\<rparr>) ''abc''
     = (Inl (AttributeError ''body''), self\<lparr>complete_flag := Some False, body := None\<rparr>)"
  by (simp add: append_body_eval)

text \<open>
  Claim C5, evaluated. On the open builder the appends of \<^verbatim>\<open>abc\<close> (3 bytes), of the
  empty string and of \<^verbatim>\<open>hello\<close> (5 bytes) each raise, the empty one too, and after each
  of them the metadata still has no \<^verbatim>\<open>size\<close> attribute.
\<close>

theorem size_accounting_fails:
  "fst (append_body open_builder ''abc'') = Inl (UnboundLocalError ''encode'')
   \<and> fst (append_body open_builder []) = Inl (UnboundLocalError ''encode'')
   \<and> fst (append_body open_builder ''hello'') = Inl (UnboundLocalError ''encode'')
   \<and> map_option size_attr (meta (snd (append_body open_builder ''abc''))) = Some None
   \<and> map_option size_attr (meta (snd (append_body open_builder []))) = Some None
   \<and> map_option size_attr (meta (snd (append_body open_builder ''hello''))) = Some None"
  by (simp add: append_body_eval open_builder_def Metadata_bare_def)

text \<open>
  Claim C6, evaluated. Sealing the builder that holds \<^verbatim>\<open>hello\<close> with both tags and the
  timestamp succeeds, and \<^verbatim>\<open>result\<close> on the sealed builder raises \<^verbatim>\<open>AttributeError\<close>
  on \<^verbatim>\<open>size\<close> instead of producing the line; on the sealed open builder it raises
  already on \<^verbatim>\<open>feature\<close>.
\<close>

theorem result_raises_on_sealed:
  "fst (complete H hello_builder) = Inr ()
   \<and> complete_flag (snd (complete H hello_builder)) = Some True
   \<and> map_option key (meta (snd (complete H hello_builder))) = Some (Some (H []))
   \<and> result fmt (snd (complete H hello_builder)) = Inl (AttributeError ''size'')
   \<and> result fmt (snd (complete H open_builder)) = Inl (AttributeError ''feature'')"
  by (simp add: complete_eval result_def Metadata_str_def get_info_def open_builder_def
      hello_builder_def Metadata_bare_def)

text \<open>
  Claim C7, evaluated. The call of the docstring's example,
  \<^verbatim>\<open>write(path, 'feature123', 'author123', 'example content')\<close>, and every other call of
  \<^verbatim>\<open>write\<close>, raises the constructor's \<^verbatim>\<open>AttributeError\<close>: nothing is appended to the
  file and no key is returned.
\<close>

theorem write_example_raises:
  "write_once H fmt now sink ''feature123'' ''author123'' ''example content''
     = (Inl (AttributeError ''meta''), \<lparr>contents = sink, closed = True\<rparr>)
   \<and> write_once H fmt now sink feat auth content
     = (Inl (AttributeError ''meta''), \<lparr>contents = sink, closed = True\<rparr>)"
  by (simp add: write_once_def RecordBuilder_new_raises open_append_def close_def)

text \<open>
  Claim C8, evaluated. Every call of \<^verbatim>\<open>write_stream\<close> raises the constructor's
  \<^verbatim>\<open>AttributeError\<close>, so no pair of closures is returned. The closure \<^verbatim>\<open>complete\<close>,
  run on any builder with the handle closed as the \<^verbatim>\<open>with\<close> block leaves it, never
  returns a key and never changes the file. On a sealed builder the closure
  \<^verbatim>\<open>append\<close> raises \<^verbatim>\<open>Exception('already complete')\<close>.
\<close>

theorem write_stream_raises:
  "write_stream now sink feat auth
     = Inl (AttributeError ''meta'', \<lparr>contents = sink, closed = True\<rparr>)
   \<and> isl (fst (stream_complete H fmt (r, close f)))
   \<and> contents (snd (snd (stream_complete H fmt (r, close f)))) = contents f
   \<and> fst (stream_append (r\<lparr>complete_flag := Some True\<rparr>, f) content)
       = Inl (Exception ''already complete'')"
  by (auto simp: write_stream_def RecordBuilder_new_raises open_append_def close_def
      stream_complete_def stream_append_def append_body_eval file_write_def
      split: prod.splits sum.splits)

end
